theory Spec2Isabelle
  imports Main "HOL-Library.AList"
begin

section \<open>Values, errors and the observable world\<close>

text \<open>
  Job descriptions, \<open>app.json\<close>, \<open>package.json\<close> and the answers of a prompt are plain
  JavaScript values. \<open>JNum\<close> carries integer-valued numbers only; the code inspects a
  number only for its truthiness. The keys of an object are distinct and keep their
  order of insertion. A value that may be \<open>undefined\<close> is a \<open>json option\<close>.
\<close>

datatype json =
    JNull
  | JBool bool
  | JNum int
  | JStr string
  | JArr "json list"
  | JObj "(string \<times> json) list"

text \<open>A thrown JavaScript error object: its constructor and its \<open>message\<close>.\<close>

datatype error = Error string | TypeError string | ReferenceError string

fun message :: "error \<Rightarrow> string" where
  "message (Error m) = m"
| "message (TypeError m) = m"
| "message (ReferenceError m) = m"

text \<open>
  What a run leaves behind: the files (path to contents) and the sequence of things
  printed or asked. \<open>Log\<close> is \<open>log(...)\<close>, \<open>LogNested\<close> is \<open>log.nested(...)\<close>,
  \<open>ConsoleLog\<close> is \<open>console.log(...)\<close>, \<open>Prompted\<close> is a call of \<open>prompt\<close> with the
  names of its questions. Colour wrappers (\<open>chalk.green\<close> and the like) leave the text
  as it is.
\<close>

datatype event =
    Log string
  | LogNested string
  | ConsoleLog json
  | Prompted "string list"

record world =
  files :: "string \<rightharpoonup> string"
  trace :: "event list"

text \<open>
  How a call ends: it returns a value, it throws (a rejected promise is a throw at the
  \<open>await\<close>), or the process is gone (\<open>process.exit\<close>). It may also not end:
  \<open>Pending\<close> is the promise that never settles and the tool that never comes back.
\<close>

datatype 'a outcome = Returned 'a | Threw error | Exited nat | Pending

type_synonym 'a io = "world \<Rightarrow> 'a outcome \<times> world"

definition return_io :: "'a \<Rightarrow> 'a io" where
  "return_io x = (\<lambda>w. (Returned x, w))"

definition throw_io :: "error \<Rightarrow> 'a io" where
  "throw_io e = (\<lambda>w. (Threw e, w))"

definition exit_io :: "nat \<Rightarrow> 'a io" where
  "exit_io n = (\<lambda>w. (Exited n, w))"

text \<open>Sequencing: a throw or an exit skips the rest, and nothing follows a call that
  does not end.\<close>

definition bind_io :: "'a io \<Rightarrow> ('a \<Rightarrow> 'b io) \<Rightarrow> 'b io" where
  "bind_io m f = (\<lambda>w. case m w of
       (Returned x, w') \<Rightarrow> f x w'
     | (Threw e, w') \<Rightarrow> (Threw e, w')
     | (Exited n, w') \<Rightarrow> (Exited n, w')
     | (Pending, w') \<Rightarrow> (Pending, w'))"

text \<open>\<open>try { m } catch (e) { h e }\<close>: only a throw is caught.\<close>

definition try_catch :: "'a io \<Rightarrow> (error \<Rightarrow> 'a io) \<Rightarrow> 'a io" where
  "try_catch m h = (\<lambda>w. case m w of
       (Returned x, w') \<Rightarrow> (Returned x, w')
     | (Threw e, w') \<Rightarrow> h e w'
     | (Exited n, w') \<Rightarrow> (Exited n, w')
     | (Pending, w') \<Rightarrow> (Pending, w'))"

text \<open>
  A library call that only observes the world, and one that needs no world at all. The
  readers are taken to answer, with an error at worst. A call that waits for a person
  may wait for ever: \<open>None\<close> is the answer that never comes.
\<close>

definition query :: "(world \<Rightarrow> error + 'a) \<Rightarrow> 'a io" where
  "query q = (\<lambda>w. case q w of Inl e \<Rightarrow> (Threw e, w) | Inr x \<Rightarrow> (Returned x, w))"

definition await :: "(world \<Rightarrow> (error + 'a) option) \<Rightarrow> 'a io" where
  "await q = (\<lambda>w. case q w of
       None \<Rightarrow> (Pending, w)
     | Some (Inl e) \<Rightarrow> (Threw e, w)
     | Some (Inr x) \<Rightarrow> (Returned x, w))"

definition call :: "error + 'a \<Rightarrow> 'a io" where
  "call r = (case r of Inl e \<Rightarrow> throw_io e | Inr x \<Rightarrow> return_io x)"

definition emit :: "event \<Rightarrow> unit io" where
  "emit ev = (\<lambda>w. (Returned (), w\<lparr>trace := trace w @ [ev]\<rparr>))"

definition log :: "string \<Rightarrow> unit io" where
  "log s = emit (Log s)"

definition log_nested :: "string \<Rightarrow> unit io" where
  "log_nested s = emit (LogNested s)"

section \<open>prepareJob\<close>

text \<open>
  \<open>Platform\<close> and \<open>BuildType\<close> are enums of \<open>@expo/build-tools\<close>. The third
  constructor of each stands for any run-time value that is neither member, which is
  what the \<open>default\<close> branches of the two switches receive.
\<close>

datatype platform = Android | iOS | OtherPlatform string

datatype buildType = Generic | Managed | OtherBuildType string

record options =
  platform :: platform

record buildConfig =
  config_type :: buildType
  config_body :: json

text \<open>
  The calls into \<open>@expo/build-tools\<close>. \<open>BuildConfig.read\<close> and the four preparation
  functions are awaited and may reject; \<open>JobSchema.validate\<close> returns the pair
  \<open>{ value, error }\<close>, with \<open>error\<close> absent when the job is valid.
\<close>

record buildTools =
  BuildConfig_read :: "string \<Rightarrow> world \<Rightarrow> error + buildConfig"
  prepareAndroidGenericJob :: "buildConfig \<Rightarrow> string \<Rightarrow> string \<Rightarrow> world \<Rightarrow> error + json"
  prepareAndroidManagedJob :: "buildConfig \<Rightarrow> string \<Rightarrow> string \<Rightarrow> world \<Rightarrow> error + json"
  prepareiOSGenericJob :: "buildConfig \<Rightarrow> string \<Rightarrow> string \<Rightarrow> world \<Rightarrow> error + json"
  prepareiOSManagedJob :: "buildConfig \<Rightarrow> string \<Rightarrow> string \<Rightarrow> world \<Rightarrow> error + json"
  JobSchema_validate :: "json \<Rightarrow> json \<times> error option"

definition validateJob :: "buildTools \<Rightarrow> json \<Rightarrow> json io" where
  "validateJob bt job =
     bind_io (emit (ConsoleLog job)) (\<lambda>_.
       case JobSchema_validate bt job of
         (v, Some e) \<Rightarrow> throw_io e
       | (v, None) \<Rightarrow> return_io v)"

definition prepareJob :: "buildTools \<Rightarrow> options \<Rightarrow> string \<Rightarrow> string \<Rightarrow> json io" where
  "prepareJob bt opts projectUrl projectDir =
     bind_io (query (BuildConfig_read bt projectDir)) (\<lambda>turtleJson.
       case platform opts of
         Android \<Rightarrow>
           (case config_type turtleJson of
              Generic \<Rightarrow>
                bind_io (query (prepareAndroidGenericJob bt turtleJson projectUrl projectDir))
                  (validateJob bt)
            | Managed \<Rightarrow>
                bind_io (query (prepareAndroidManagedJob bt turtleJson projectUrl projectDir))
                  (validateJob bt)
            | OtherBuildType _ \<Rightarrow> throw_io (Error ''Unsupported build type''))
       | iOS \<Rightarrow>
           (case config_type turtleJson of
              Generic \<Rightarrow>
                bind_io (query (prepareiOSGenericJob bt turtleJson projectUrl projectDir))
                  (validateJob bt)
            | Managed \<Rightarrow>
                bind_io (query (prepareiOSManagedJob bt turtleJson projectUrl projectDir))
                  (validateJob bt)
            | OtherBuildType _ \<Rightarrow> throw_io (Error ''Unsupported build type''))
       | OtherPlatform _ \<Rightarrow> throw_io (Error ''Unsupported platform''))"

section \<open>stripDashes\<close>

text \<open>
  The \<open>for (let c of s)\<close> loop with its accumulator \<open>ret\<close>: one iteration for each
  character of \<open>s\<close>, in order.
\<close>

fun stripDashes_loop :: "string \<Rightarrow> string \<Rightarrow> string" where
  "stripDashes_loop ret [] = ret"
| "stripDashes_loop ret (c # cs) =
     stripDashes_loop (if c \<noteq> CHR '' '' \<and> c \<noteq> CHR ''-'' then ret @ [c] else ret) cs"

definition stripDashes :: "string \<Rightarrow> string" where
  "stripDashes s = stripDashes_loop [] s"



section \<open>JavaScript values at run time\<close>

text \<open>\<open>!v\<close> is \<open>\<not> truthy v\<close>; \<open>undefined\<close> is falsy.\<close>

fun truthy :: "json \<Rightarrow> bool" where
  "truthy JNull = False"
| "truthy (JBool b) = b"
| "truthy (JNum n) = (n \<noteq> 0)"
| "truthy (JStr s) = (s \<noteq> [])"
| "truthy (JArr xs) = True"
| "truthy (JObj kvs) = True"

fun truthy_opt :: "json option \<Rightarrow> bool" where
  "truthy_opt None = False"
| "truthy_opt (Some v) = truthy v"

text \<open>
  Property access in a strict-mode module. The property names of this file are none of
  the built-in ones (\<open>length\<close>, an index, a prototype method), so a primitive or an
  array has none of them. Reading from \<open>undefined\<close> or \<open>null\<close> throws; so does
  assigning to a primitive. A named property assigned to an array is no element of it
  and is left out by \<open>JSON.stringify\<close>; assigning \<open>undefined\<close> leaves a property that
  reads as \<open>undefined\<close> and is left out likewise.
\<close>

fun get_prop :: "json option \<Rightarrow> string \<Rightarrow> error + json option" where
  "get_prop None k = Inl (TypeError (''Cannot read property '' @ k @ '' of undefined''))"
| "get_prop (Some JNull) k = Inl (TypeError (''Cannot read property '' @ k @ '' of null''))"
| "get_prop (Some (JObj kvs)) k = Inr (map_of kvs k)"
| "get_prop (Some v) k = Inr None"

fun set_prop :: "json option \<Rightarrow> string \<Rightarrow> json option \<Rightarrow> error + json" where
  "set_prop None k v = Inl (TypeError (''Cannot set property '' @ k @ '' of undefined''))"
| "set_prop (Some JNull) k v = Inl (TypeError (''Cannot set property '' @ k @ '' of null''))"
| "set_prop (Some (JObj kvs)) k (Some x) = Inr (JObj (AList.update k x kvs))"
| "set_prop (Some (JObj kvs)) k None = Inr (JObj (AList.delete k kvs))"
| "set_prop (Some (JArr xs)) k v = Inr (JArr xs)"
| "set_prop (Some v) k x = Inl (TypeError (''Cannot create property '' @ k))"

fun delete_prop :: "json option \<Rightarrow> string \<Rightarrow> error + json" where
  "delete_prop None k = Inl (TypeError ''Cannot convert undefined or null to object'')"
| "delete_prop (Some JNull) k = Inl (TypeError ''Cannot convert undefined or null to object'')"
| "delete_prop (Some (JObj kvs)) k = Inr (JObj (AList.delete k kvs))"
| "delete_prop (Some v) k = Inr v"

text \<open>Decimal digits of a number, and \<open>String(v)\<close> as a template literal computes it.\<close>

function string_of_nat :: "nat \<Rightarrow> string" where
  "string_of_nat n =
     (if n < 10 then [''0123456789'' ! n]
      else string_of_nat (n div 10) @ [''0123456789'' ! (n mod 10)])"
  by pat_completeness auto
termination
  by (relation "measure id") auto

declare string_of_nat.simps [simp del]

definition string_of_int :: "int \<Rightarrow> string" where
  "string_of_int i = (if i < 0 then ''-'' @ string_of_nat (nat (- i)) else string_of_nat (nat i))"

fun join_comma :: "string list \<Rightarrow> string" where
  "join_comma [] = []"
| "join_comma [s] = s"
| "join_comma (s # t # ss) = s @ '','' @ join_comma (t # ss)"

fun js_string :: "json \<Rightarrow> string" where
  "js_string JNull = ''null''"
| "js_string (JBool b) = (if b then ''true'' else ''false'')"
| "js_string (JNum n) = string_of_int n"
| "js_string (JStr s) = s"
| "js_string (JArr xs) = join_comma (map (\<lambda>x. if x = JNull then [] else js_string x) xs)"
| "js_string (JObj kvs) = ''[object Object]''"

fun js_string_opt :: "json option \<Rightarrow> string" where
  "js_string_opt None = ''undefined''"
| "js_string_opt (Some v) = js_string v"

text \<open>
  \<open>stripDashes\<close> called on a run-time value: a string is iterated by character, an
  array by element (\<open>ret += c\<close> appends \<open>String(c)\<close>), anything else is not iterable.
\<close>

fun stripDashes_value :: "json \<Rightarrow> error + string" where
  "stripDashes_value (JStr s) = Inr (stripDashes s)"
| "stripDashes_value (JArr xs) =
     Inr (concat (map js_string (filter (\<lambda>c. c \<noteq> JStr '' '' \<and> c \<noteq> JStr ''-'') xs)))"
| "stripDashes_value v = Inl (TypeError ''s is not iterable'')"

section \<open>The libraries of the eject command\<close>

record choice =
  c_name :: string
  c_value :: string
  c_short :: string

text \<open>A question of \<open>prompt\<close>; \<open>validate\<close> answers \<open>None\<close> for \<open>true\<close>, or the complaint.\<close>

record question =
  q_type :: "string option"
  q_name :: string
  q_message :: string
  q_default :: "json option"
  q_choices :: "choice list"
  q_validate :: "(string \<Rightarrow> string option) option"

record ejectOptions =
  ejectMethod :: "json option"

text \<open>
  Everything the file imports, as the environment of a run. A call that only inspects
  (the file system, the registry) is a function of the world that may fail; a call that
  acts on the world is an \<open>io\<close>. \<open>git_status\<close> is the standard output of
  \<open>spawnAsync('git', ['status', '--porcelain'])\<close>; \<open>ask\<close> is the answers object that
  \<open>prompt\<close> resolves to, its rejection in non-interactive mode, or \<open>None\<close> when the user
  never answers; \<open>writeFile_error\<close> says whether \<open>fse.writeFile\<close> rejects.
\<close>

record ejectEnv =
  git_status :: "world \<Rightarrow> error + string"
  ask :: "question list \<Rightarrow> string \<Rightarrow> world \<Rightarrow> (error + json) option"
  loginOrRegisterIfLoggedOut :: "unit io"
  detachAsync :: "string \<Rightarrow> ejectOptions \<Rightarrow> unit io"
  isUsingYarn :: "string \<Rightarrow> world \<Rightarrow> bool"
  findConfigFileAsync :: "string \<Rightarrow> world \<Rightarrow> error + string \<times> string"
  ProjectUtils_readConfigJsonAsync :: "string \<Rightarrow> world \<Rightarrow> error + json option \<times> json option"
  ConfigUtils_readConfigJsonAsync :: "string \<Rightarrow> world \<Rightarrow> error + json option \<times> json option"
  JSON_parse :: "string \<Rightarrow> error + json"
  JSON_stringify :: "json \<Rightarrow> string"
  gteSdkVersion :: "json option \<Rightarrow> string \<Rightarrow> error + bool"
  npmPackageArg :: "string \<Rightarrow> error + string"
  pacote_manifest :: "string \<Rightarrow> world \<Rightarrow> error + json"
  path_resolve :: "string \<Rightarrow> string"
  path_join :: "string \<Rightarrow> string \<Rightarrow> string"
  writeFile_error :: "string \<Rightarrow> world \<Rightarrow> error option"
  tmp_dirSync :: "string io"
  extractTemplateAppAsync :: "string \<Rightarrow> string \<Rightarrow> json \<Rightarrow> unit io"
  copySync :: "string \<Rightarrow> string \<Rightarrow> unit io"
  removeCallback :: "string \<Rightarrow> unit io"
  versionsAsync :: "world \<Rightarrow> error + json"
  fse_remove :: "string \<Rightarrow> unit io"
  spawn_sync :: "string \<Rightarrow> string list \<Rightarrow> unit io"

definition prompt :: "ejectEnv \<Rightarrow> question list \<Rightarrow> string \<Rightarrow> json io" where
  "prompt env qs nonInteractiveHelp =
     bind_io (emit (Prompted (map q_name qs))) (\<lambda>_. await (ask env qs nonInteractiveHelp))"

definition readFile :: "string \<Rightarrow> string io" where
  "readFile p = query (\<lambda>w. case files w p of
       None \<Rightarrow> Inl (Error (''ENOENT: no such file or directory, open '' @ p))
     | Some text \<Rightarrow> Inr text)"

definition writeFile :: "ejectEnv \<Rightarrow> string \<Rightarrow> string \<Rightarrow> unit io" where
  "writeFile env p text = (\<lambda>w. case writeFile_error env p w of
       Some e \<Rightarrow> (Threw e, w)
     | None \<Rightarrow> (Returned (), w\<lparr>files := (files w)(p \<mapsto> text)\<rparr>))"

definition EXPO_APP_ENTRY :: string where
  "EXPO_APP_ENTRY = ''node_modules/expo/AppEntry.js''"

section \<open>getAppNamesAsync\<close>

text \<open>
  \<open>configName === 'app.json' ? JSON.parse(await fse.readFile(configPath)) : {}\<close>, as
  both \<open>ejectToBareAsync\<close> and \<open>getAppNamesAsync\<close> compute it.
\<close>

definition readAppJson :: "ejectEnv \<Rightarrow> string \<Rightarrow> string \<Rightarrow> json io" where
  "readAppJson env configPath configName =
     (if configName = ''app.json''
      then bind_io (readFile configPath) (\<lambda>text. call (JSON_parse env text))
      else return_io (JObj []))"

definition validate_displayName :: "string \<Rightarrow> string option" where
  "validate_displayName s =
     (if length s > 0 then None else Some ''App display name cannot be empty.'')"

definition validate_name :: "string \<Rightarrow> string option" where
  "validate_name s =
     (if length s = 0 then Some ''Project name cannot be empty.''
      else if CHR ''-'' \<in> set s \<or> CHR '' '' \<in> set s
        then Some ''Project name cannot contain hyphens or spaces.''
      else None)"

definition nameQuestions :: "json option \<Rightarrow> json option \<Rightarrow> question list" where
  "nameQuestions displayNameDefault nameDefault =
     [\<lparr>q_type = None, q_name = ''displayName'',
        q_message = ''What should your app appear as on a user's home screen?'',
        q_default = displayNameDefault, q_choices = [],
        q_validate = Some validate_displayName\<rparr>,
      \<lparr>q_type = None, q_name = ''name'',
        q_message = ''What should your Android Studio and Xcode projects be called?'',
        q_default = nameDefault, q_choices = [],
        q_validate = Some validate_name\<rparr>]"

definition getAppNamesAsync :: "ejectEnv \<Rightarrow> string \<Rightarrow> (json option \<times> json option) io" where
  "getAppNamesAsync env projectRoot =
     bind_io (query (findConfigFileAsync env projectRoot)) (\<lambda>(configPath, configName).
     bind_io (query (ConfigUtils_readConfigJsonAsync env projectRoot)) (\<lambda>(exp, pkgJson).
     bind_io (readAppJson env configPath configName) (\<lambda>appJson.
     bind_io (call (get_prop (Some appJson) ''displayName'')) (\<lambda>displayName.
     bind_io (call (get_prop (Some appJson) ''name'')) (\<lambda>name.
       if \<not> truthy_opt displayName \<or> \<not> truthy_opt name then
         bind_io (log ''We have a couple of questions to ask you about how you'd like to name your app:'') (\<lambda>_.
         bind_io (if truthy_opt name then return_io name else call (get_prop exp ''name'')) (\<lambda>displayNameDefault.
         bind_io (call (get_prop pkgJson ''name'')) (\<lambda>pkgName.
         bind_io (case pkgName of
                    None \<Rightarrow> return_io None
                  | Some v \<Rightarrow> if truthy v
                      then bind_io (call (stripDashes_value v)) (\<lambda>s. return_io (Some (JStr s)))
                      else return_io None) (\<lambda>nameDefault.
         bind_io (prompt env (nameQuestions displayNameDefault nameDefault)
                    ''Please specify \"displayName\" and \"name\" in app.json.'') (\<lambda>answers.
         bind_io (call (get_prop (Some answers) ''displayName'')) (\<lambda>displayName'.
         bind_io (call (get_prop (Some answers) ''name'')) (\<lambda>name'.
           return_io (displayName', name'))))))))
       else return_io (displayName, name))))))"

section \<open>ejectToBareAsync\<close>

text \<open>
  The function is one straight line of six stages; each stage below is the source text
  between the line numbers given, and \<open>ejectToBareAsync\<close> runs them in order.
\<close>

text \<open>
  Line 121 calls \<open>semver.major(exp.sdkVersion)\<close>, but the module binds no \<open>semver\<close>:
  lines 3-17 import chalk, fs-extra, match-require, npm-package-arg, path, cross-spawn,
  pacote, tmp, @expo/spawn-async, @expo/xdl, @expo/config, log, prompt and accounts, and
  there is no global of that name. Evaluating the name throws a \<open>ReferenceError\<close>
  before the argument is looked at, so the call yields no number.
\<close>

definition semver_major :: "nat io" where
  "semver_major = throw_io (ReferenceError ''semver is not defined'')"

record ejectContext =
  ctx_useYarn :: bool
  ctx_exp :: "json option"
  ctx_pkgJson :: "json option"
  ctx_appJson :: json
  ctx_templateSpec :: string

text \<open>Lines 104-129: read the project and perform the validations.\<close>

definition validateProject :: "ejectEnv \<Rightarrow> string \<Rightarrow> ejectContext io" where
  "validateProject env projectRoot =
     bind_io (query (\<lambda>w. Inr (isUsingYarn env projectRoot w))) (\<lambda>useYarn.
     bind_io (query (findConfigFileAsync env projectRoot)) (\<lambda>(configPath, configName).
     bind_io (query (ProjectUtils_readConfigJsonAsync env projectRoot)) (\<lambda>(exp, pkgJson).
     bind_io (readAppJson env configPath configName) (\<lambda>appJson.
       if \<not> truthy_opt exp then throw_io (Error (''Couldn't read '' @ configName))
       else if \<not> truthy_opt pkgJson then throw_io (Error ''Couldn't read package.json'')
       else
         bind_io (call (gteSdkVersion env exp ''33.0.0'')) (\<lambda>gte.
           if \<not> gte then
             throw_io (Error ''Ejecting to a bare project is only available for SDK 33 and higher'')
           else
             bind_io semver_major (\<lambda>sdkMajorVersionNumber.
             bind_io (call (npmPackageArg env
                        (''expo-template-bare-minimum@sdk-''
                          @ string_of_nat sdkMajorVersionNumber))) (\<lambda>templateSpec.
             bind_io (try_catch
                        (bind_io (query (pacote_manifest env templateSpec)) (\<lambda>_. return_io ()))
                        (\<lambda>e. throw_io (Error
                           (''Unable to eject because an eject template for SDK ''
                             @ string_of_nat sdkMajorVersionNumber @ '' was not found'')))) (\<lambda>_.
               return_io \<lparr>ctx_useYarn = useYarn, ctx_exp = exp, ctx_pkgJson = pkgJson,
                          ctx_appJson = appJson, ctx_templateSpec = templateSpec\<rparr>))))))))"

text \<open>Lines 134-148: ask for the names, set the entry point, write \<open>app.json\<close>.\<close>

definition customizeAppJson :: "ejectEnv \<Rightarrow> string \<Rightarrow> json \<Rightarrow> json io" where
  "customizeAppJson env projectRoot appJson =
     bind_io (getAppNamesAsync env projectRoot) (\<lambda>(displayName, name).
     bind_io (call (set_prop (Some appJson) ''displayName'' displayName)) (\<lambda>appJson1.
     bind_io (call (set_prop (Some appJson1) ''name'' name)) (\<lambda>appJson2.
     bind_io (call (get_prop (Some appJson2) ''expo'')) (\<lambda>expo.
     bind_io (call (get_prop expo ''entryPoint'')) (\<lambda>entryPoint.
     bind_io (if truthy_opt entryPoint \<and> entryPoint \<noteq> Some (JStr EXPO_APP_ENTRY)
              then bind_io (log (''expo.entryPoint is already configured, we recommend using \"''
                                  @ EXPO_APP_ENTRY)) (\<lambda>_. return_io appJson2)
              else bind_io (call (set_prop expo ''entryPoint'' (Some (JStr EXPO_APP_ENTRY)))) (\<lambda>expo'.
                     call (set_prop (Some appJson2) ''expo'' (Some expo')))) (\<lambda>appJson3.
     bind_io (log ''Writing app.json...'') (\<lambda>_.
     bind_io (writeFile env (path_resolve env ''app.json'') (JSON_stringify env appJson3)) (\<lambda>_.
     bind_io (log ''Wrote to app.json, please update it manually in the future.'') (\<lambda>_.
       return_io appJson3)))))))))"

text \<open>Lines 154-159, the body of the \<open>try\<close>: extract the template and copy it over.\<close>

definition copyTemplate :: "ejectEnv \<Rightarrow> string \<Rightarrow> string \<Rightarrow> json \<Rightarrow> unit io" where
  "copyTemplate env projectRoot templateSpec appJson =
     bind_io (tmp_dirSync env) (\<lambda>tempDir.
     bind_io (extractTemplateAppAsync env templateSpec tempDir appJson) (\<lambda>_.
     bind_io (copySync env (path_join env tempDir ''ios'') (path_join env projectRoot ''ios'')) (\<lambda>_.
     bind_io (copySync env (path_join env tempDir ''android'')
                (path_join env projectRoot ''android'')) (\<lambda>_.
     bind_io (removeCallback env tempDir) (\<lambda>_.
       log ''Successfully copied template native code.'')))))"

text \<open>Lines 153-165: the \<open>try\<close> with its \<open>catch\<close>.\<close>

definition extractTemplate :: "ejectEnv \<Rightarrow> string \<Rightarrow> string \<Rightarrow> json \<Rightarrow> unit io" where
  "extractTemplate env projectRoot templateSpec appJson =
     try_catch (copyTemplate env projectRoot templateSpec appJson) (\<lambda>e.
       bind_io (log (message e)) (\<lambda>_.
       bind_io (log ''Eject failed, see above output for any issues.'') (\<lambda>_.
       bind_io (log ''You may want to delete the `ios` and/or `android` directories.'') (\<lambda>_.
         exit_io 1))))"

text \<open>
  Lines 167-186: the scripts and dependencies of \<open>package.json\<close>, then the write.
  \<open>scripts1\<close> is the object that \<open>pkgJson.scripts\<close> refers to after line 170; where
  \<open>pkgJson.scripts\<close> could be read, \<open>pkgJson\<close> is defined.
\<close>

definition updatePackageJson :: "ejectEnv \<Rightarrow> ejectContext \<Rightarrow> json io" where
  "updatePackageJson env ctx =
     bind_io (log (''Updating your '' @ (if ctx_useYarn ctx then ''yarn'' else ''npm'')
                    @ '' scripts in package.json...'')) (\<lambda>_.
     bind_io (call (get_prop (ctx_pkgJson ctx) ''scripts'')) (\<lambda>scripts0.
     bind_io (if \<not> truthy_opt scripts0
              then bind_io (call (set_prop (ctx_pkgJson ctx) ''scripts'' (Some (JObj [])))) (\<lambda>p.
                     return_io (p, Some (JObj [])))
              else call (case ctx_pkgJson ctx of
                           None \<Rightarrow> Inl (TypeError ''Cannot read property scripts of undefined'')
                         | Some p \<Rightarrow> Inr (p, scripts0))) (\<lambda>(pkgJson1, scripts1).
     bind_io (call (delete_prop scripts1 ''eject'')) (\<lambda>scripts2.
     bind_io (call (set_prop (Some scripts2) ''start'' (Some (JStr ''react-native start'')))) (\<lambda>scripts3.
     bind_io (call (set_prop (Some scripts3) ''ios'' (Some (JStr ''react-native run-ios'')))) (\<lambda>scripts4.
     bind_io (call (set_prop (Some scripts4) ''android''
                      (Some (JStr ''react-native run-android'')))) (\<lambda>scripts5.
     bind_io (call (set_prop (Some pkgJson1) ''scripts'' (Some scripts5))) (\<lambda>pkgJson2.
     bind_io (call (get_prop (ctx_exp ctx) ''sdkVersion'')) (\<lambda>sdkVersion.
     bind_io (query (versionsAsync env)) (\<lambda>versions.
     bind_io (call (get_prop (Some versions) ''sdkVersions'')) (\<lambda>sdkVersions.
     bind_io (call (get_prop sdkVersions (js_string_opt sdkVersion))) (\<lambda>entry.
     bind_io (call (get_prop entry ''facebookReactNativeVersion'')) (\<lambda>reactNativeVersion.
     bind_io (call (get_prop (Some pkgJson2) ''dependencies'')) (\<lambda>dependencies.
     bind_io (call (set_prop dependencies ''react-native'' reactNativeVersion)) (\<lambda>dependencies1.
     bind_io (call (set_prop (Some dependencies1) ''react-native-unimodules''
                      (Some (JStr ''^0.4.1'')))) (\<lambda>dependencies2.
     bind_io (call (set_prop (Some pkgJson2) ''dependencies'' (Some dependencies2))) (\<lambda>pkgJson3.
     bind_io (writeFile env (path_resolve env ''package.json'') (JSON_stringify env pkgJson3)) (\<lambda>_.
     bind_io (log ''Your package.json is up to date!'') (\<lambda>_.
       return_io pkgJson3)))))))))))))))))))"

text \<open>Lines 188-197: \<open>index.js\<close>. The \<open>delete pkgJson.main\<close> comes after the write above.\<close>

definition addEntryPoint :: "ejectEnv \<Rightarrow> json \<Rightarrow> json \<Rightarrow> unit io" where
  "addEntryPoint env pkgJson appJson =
     bind_io (log ''Adding entry point...'') (\<lambda>_.
     bind_io (call (delete_prop (Some pkgJson) ''main'')) (\<lambda>_.
     bind_io (call (get_prop (Some appJson) ''name'')) (\<lambda>name.
     bind_io (writeFile env (path_resolve env ''index.js'')
                (''import { AppRegistry } from 'react-native';\<newline>import App from './App';\<newline>\<newline>AppRegistry.registerComponent(''
                  @ [CHR 0x27] @ js_string_opt name @ [CHR 0x27] @ '', () => App);\<newline>'')) (\<lambda>_.
       log ''Added new entry points!''))))"

text \<open>Lines 199-214: remove \<open>node_modules\<close> and install again.\<close>

definition installPackages :: "ejectEnv \<Rightarrow> bool \<Rightarrow> unit io" where
  "installPackages env useYarn =
     bind_io (log (''\<newline>Note that using `'' @ (if useYarn then ''yarn'' else ''npm'')
                    @ '' start` will now require you to run Xcode and/or\<newline>Android Studio to build the native code for your project.'')) (\<lambda>_.
     bind_io (log ''Removing node_modules...'') (\<lambda>_.
     bind_io (fse_remove env ''node_modules'') (\<lambda>_.
       if useYarn then
         bind_io (log ''Installing packages with yarn...'') (\<lambda>_.
           spawn_sync env ''yarnpkg'' [])
       else
         bind_io (log ''Installing existing packages with npm...'') (\<lambda>_.
           spawn_sync env ''npm'' [''install'']))))"

definition ejectToBareAsync :: "ejectEnv \<Rightarrow> string \<Rightarrow> ejectOptions \<Rightarrow> unit io" where
  "ejectToBareAsync env projectRoot opts =
     bind_io (validateProject env projectRoot) (\<lambda>ctx.
     bind_io (customizeAppJson env projectRoot (ctx_appJson ctx)) (\<lambda>appJson.
     bind_io (extractTemplate env projectRoot (ctx_templateSpec ctx) appJson) (\<lambda>_.
     bind_io (updatePackageJson env ctx) (\<lambda>pkgJson.
     bind_io (addEntryPoint env pkgJson appJson) (\<lambda>_.
       installPackages env (ctx_useYarn ctx))))))"

section \<open>ejectAsync\<close>

text \<open>Lines 22-47: the state of the git working tree, and the advice printed for it.\<close>

definition workingTreeStatus :: "ejectEnv \<Rightarrow> world \<Rightarrow> string" where
  "workingTreeStatus env w =
     (case git_status env w of
        Inl e \<Rightarrow> ''unknown''
      | Inr stdout \<Rightarrow> if stdout = [] then ''clean'' else ''dirty'')"

definition reportWorkingTree :: "ejectEnv \<Rightarrow> unit io" where
  "reportWorkingTree env =
     bind_io (query (\<lambda>w. Inr (workingTreeStatus env w))) (\<lambda>status.
     bind_io (if status = ''clean'' then
                bind_io (log_nested ''Your git working tree is clean'') (\<lambda>_.
                bind_io (log_nested ''To revert the changes from ejecting later, you can use these commands:'') (\<lambda>_.
                  log_nested ''  git clean --force && git reset --hard''))
              else if status = ''dirty'' then
                bind_io (log_nested ''Warning! Your git working tree is dirty.'') (\<lambda>_.
                  log_nested ''It's recommended to commit all your changes before proceeding,\<newline>so you can revert the changes made by this command if necessary.'')
              else
                bind_io (log_nested ''We couldn't find a git repository in your project directory.'') (\<lambda>_.
                  log_nested ''It's recommended to back up your project before proceeding.'')) (\<lambda>_.
       log_nested []))"

text \<open>Lines 49-77.\<close>

definition ejectQuestions :: "question list" where
  "ejectQuestions =
     [\<lparr>q_type = Some ''list'', q_name = ''ejectMethod'',
        q_message = ''How would you like to eject your app?\<newline>  Read more: https://docs.expo.io/versions/latest/expokit/eject/'',
        q_default = Some (JStr ''bare''),
        q_choices =
          [\<lparr>c_name = ''Bare: I'd like a bare React Native project.'',
             c_value = ''bare'', c_short = ''Bare''\<rparr>,
           \<lparr>c_name = ''ExpoKit: I'll create or log in with an Expo account to use React Native and the Expo SDK.'',
             c_value = ''expokit'', c_short = ''ExpoKit''\<rparr>,
           \<lparr>c_name = ''Cancel: I'll continue with my current project structure.'',
             c_value = ''cancel'', c_short = ''cancel''\<rparr>],
        q_validate = None\<rparr>]"

text \<open>Lines 79-83: the option if it is truthy, the user's choice otherwise.\<close>

definition resolveEjectMethod :: "ejectEnv \<Rightarrow> ejectOptions \<Rightarrow> (json option) io" where
  "resolveEjectMethod env opts =
     (if truthy_opt (ejectMethod opts) then return_io (ejectMethod opts)
      else bind_io (prompt env ejectQuestions
                      ''Please specify eject method (bare, expokit) with the --eject-method option.'')
             (\<lambda>answers. call (get_prop (Some answers) ''ejectMethod'')))"

text \<open>
  Lines 85-100. The branch answers whether the function goes on to the last line; the
  \<open>cancel\<close> branch returns before it.
\<close>

definition dispatchEjectMethod ::
  "ejectEnv \<Rightarrow> string \<Rightarrow> ejectOptions \<Rightarrow> json option \<Rightarrow> unit io" where
  "dispatchEjectMethod env projectRoot opts method =
     bind_io
       (if method = Some (JStr ''bare'') then
          bind_io (ejectToBareAsync env projectRoot opts) (\<lambda>_. return_io True)
        else if method = Some (JStr ''expokit'') then
          bind_io (loginOrRegisterIfLoggedOut env) (\<lambda>_.
          bind_io (detachAsync env projectRoot opts) (\<lambda>_. return_io True))
        else if method = Some (JStr ''cancel'') then
          bind_io (log ''OK! If you change your mind you can run this command again.'') (\<lambda>_.
            return_io False)
        else
          throw_io (Error (''Unrecognized eject method \"'' @ js_string_opt method
                            @ ''\". Valid options are: bare, expokit.'')))
       (\<lambda>goOn. if goOn then log ''Ejected successfully!'' else return_io ())"

definition ejectAsync :: "ejectEnv \<Rightarrow> string \<Rightarrow> ejectOptions \<Rightarrow> unit io" where
  "ejectAsync env projectRoot opts =
     bind_io (reportWorkingTree env) (\<lambda>_.
     bind_io (resolveEjectMethod env opts) (\<lambda>method.
       dispatchEjectMethod env projectRoot opts method))"

section \<open>The claim's table of preparation functions\<close>

text \<open>
  The platform-and-type matrix as the specification words it: which preparation function
  belongs to which pair. \<open>prepareJob\<close> above is written from the two nested switches.
\<close>

definition matching_prepare ::
  "buildTools \<Rightarrow> platform \<Rightarrow> buildType \<Rightarrow>
     (buildConfig \<Rightarrow> string \<Rightarrow> string \<Rightarrow> world \<Rightarrow> error + json) option" where
  "matching_prepare bt p t =
     (if p = Android \<and> t = Generic then Some (prepareAndroidGenericJob bt)
      else if p = Android \<and> t = Managed then Some (prepareAndroidManagedJob bt)
      else if p = iOS \<and> t = Generic then Some (prepareiOSGenericJob bt)
      else if p = iOS \<and> t = Managed then Some (prepareiOSManagedJob bt)
      else None)"

section \<open>A sample project and sample libraries\<close>

text \<open>
  Concrete inputs on which the theorems below are run: a build-tools library whose
  schema accepts a job exactly when it is an object, and a managed SDK 33 project in
  \<open>/proj\<close> with libraries that answer for it.
\<close>

definition sample_job :: json where
  "sample_job = JObj [(''platform'', JStr ''android''), (''type'', JStr ''generic'')]"

definition sample_buildTools :: buildTools where
  "sample_buildTools =
     \<lparr>BuildConfig_read = (\<lambda>dir w. case files w (dir @ ''/turtle.json'') of
          None \<Rightarrow> Inl (Error ''turtle.json not found'')
        | Some text \<Rightarrow> Inr \<lparr>config_type =
              (if text = ''generic'' then Generic
               else if text = ''managed'' then Managed else OtherBuildType text),
            config_body = JStr text\<rparr>),
      prepareAndroidGenericJob = (\<lambda>t url dir w. Inr sample_job),
      prepareAndroidManagedJob = (\<lambda>t url dir w. Inr (JStr ''not a job'')),
      prepareiOSGenericJob = (\<lambda>t url dir w. Inl (Error ''no credentials'')),
      prepareiOSManagedJob = (\<lambda>t url dir w. Inr JNull),
      JobSchema_validate = (\<lambda>job. case job of
          JObj kvs \<Rightarrow> (job, None)
        | _ \<Rightarrow> (job, Some (Error ''ValidationError'')))\<rparr>"

definition generic_world :: world where
  "generic_world = \<lparr>files = [''/build/turtle.json'' \<mapsto> ''generic''], trace = []\<rparr>"

definition custom_world :: world where
  "custom_world = \<lparr>files = [''/build/turtle.json'' \<mapsto> ''custom''], trace = []\<rparr>"

definition empty_world :: world where
  "empty_world = \<lparr>files = Map.empty, trace = []\<rparr>"

definition sample_appJson :: json where
  "sample_appJson =
     JObj [(''displayName'', JStr ''Demo''), (''name'', JStr ''demo''),
           (''expo'', JObj [(''sdkVersion'', JStr ''33.0.0'')])]"

definition unnamed_appJson :: json where
  "unnamed_appJson =
     JObj [(''displayName'', JBool False), (''name'', JStr ''demo''),
           (''expo'', JObj [(''sdkVersion'', JStr ''33.0.0'')])]"

definition sample_exp :: json where
  "sample_exp = JObj [(''name'', JStr ''demo''), (''sdkVersion'', JStr ''33.0.0'')]"

definition sample_pkgJson :: json where
  "sample_pkgJson =
     JObj [(''name'', JStr ''demo-app''),
           (''scripts'', JObj [(''eject'', JStr ''expo eject'')]),
           (''dependencies'', JObj [(''expo'', JStr ''^33.0.0'')])]"

definition sample_versions :: json where
  "sample_versions =
     JObj [(''sdkVersions'',
            JObj [(''33.0.0'', JObj [(''facebookReactNativeVersion'', JStr ''0.59.8'')])])]"

definition sample_world :: world where
  "sample_world =
     \<lparr>files = [''/proj/app.json'' \<mapsto> ''sample'', ''/proj/package.json'' \<mapsto> ''package''],
      trace = []\<rparr>"

definition unnamed_world :: world where
  "unnamed_world =
     \<lparr>files = [''/proj/app.json'' \<mapsto> ''unnamed'', ''/proj/package.json'' \<mapsto> ''package''],
      trace = []\<rparr>"

text \<open>
  The sample parser knows the two sample files by their contents, and the sample
  printer writes only the outermost keys.
\<close>

definition sample_env :: ejectEnv where
  "sample_env =
     \<lparr>git_status = (\<lambda>w. Inr []),
      ask = (\<lambda>qs help w. Some (Inr (JObj [(''ejectMethod'', JStr ''cancel''),
                                           (''displayName'', JStr ''Asked''),
                                           (''name'', JStr ''asked'')]))),
      loginOrRegisterIfLoggedOut = return_io (),
      detachAsync = (\<lambda>root opts. return_io ()),
      isUsingYarn = (\<lambda>root w. False),
      findConfigFileAsync = (\<lambda>root w. Inr (root @ ''/app.json'', ''app.json'')),
      ProjectUtils_readConfigJsonAsync = (\<lambda>root w. Inr (Some sample_exp, Some sample_pkgJson)),
      ConfigUtils_readConfigJsonAsync = (\<lambda>root w. Inr (Some sample_exp, Some sample_pkgJson)),
      JSON_parse = (\<lambda>text. if text = ''sample'' then Inr sample_appJson
                            else if text = ''unnamed'' then Inr unnamed_appJson
                            else Inl (Error ''Unexpected token'')),
      JSON_stringify = (\<lambda>v. case v of JObj kvs \<Rightarrow> join_comma (map fst kvs) | _ \<Rightarrow> js_string v),
      gteSdkVersion = (\<lambda>exp v. Inr True),
      npmPackageArg = (\<lambda>spec. Inr spec),
      pacote_manifest = (\<lambda>spec w. if spec = ''expo-template-bare-minimum@sdk-33''
                                    then Inr (JObj []) else Inl (Error ''E404'')),
      path_resolve = (\<lambda>p. ''/proj/'' @ p),
      path_join = (\<lambda>a b. a @ ''/'' @ b),
      writeFile_error = (\<lambda>p w. None),
      tmp_dirSync = return_io ''/tmp/eject'',
      extractTemplateAppAsync = (\<lambda>spec dir appJson. return_io ()),
      copySync = (\<lambda>src dst. return_io ()),
      removeCallback = (\<lambda>dir. return_io ()),
      versionsAsync = (\<lambda>w. Inr sample_versions),
      fse_remove = (\<lambda>p. return_io ()),
      spawn_sync = (\<lambda>cmd args. return_io ())\<rparr>"

text \<open>
  The same project with SDK 32, and the same libraries with a template that fails to
  download.
\<close>

definition sdk32_env :: ejectEnv where
  "sdk32_env = sample_env\<lparr>gteSdkVersion := (\<lambda>exp v. Inr False)\<rparr>"







section \<open>Predicates for the statements and the proofs\<close>

text \<open>
  A call observes only when it leaves every world as it found it and ends by returning
  or throwing; it keeps the files when it may print or ask but writes nothing; it never
  returns when every run of it ends otherwise; it settles when it always ends.
\<close>

definition observes_only :: "'a io \<Rightarrow> bool" where
  "observes_only m = (\<forall>w. \<exists>r. m w = (r, w) \<and> (\<forall>n. r \<noteq> Exited n) \<and> r \<noteq> Pending)"

definition keeps_files :: "'a io \<Rightarrow> bool" where
  "keeps_files m = (\<forall>w. files (snd (m w)) = files w)"

definition never_returns :: "'a io \<Rightarrow> bool" where
  "never_returns m = (\<forall>w x. fst (m w) \<noteq> Returned x)"





section \<open>Running the combinators\<close>

lemma bind_return [simp]: "bind_io (return_io x) f w = f x w"
  by (simp add: bind_io_def return_io_def)

lemma bind_throw [simp]: "bind_io (throw_io e) f w = (Threw e, w)"
  by (simp add: bind_io_def throw_io_def)

lemma bind_exit [simp]: "bind_io (exit_io n) f w = (Exited n, w)"
  by (simp add: bind_io_def exit_io_def)

lemma bind_query [simp]:
  "bind_io (query q) f w = (case q w of Inl e \<Rightarrow> (Threw e, w) | Inr x \<Rightarrow> f x w)"
  by (simp add: bind_io_def query_def split: sum.splits)

lemma bind_call [simp]:
  "bind_io (call r) f w = (case r of Inl e \<Rightarrow> (Threw e, w) | Inr x \<Rightarrow> f x w)"
  by (simp add: call_def split: sum.splits)

lemma bind_await [simp]:
  "bind_io (await q) f w =
     (case q w of
        None \<Rightarrow> (Pending, w)
      | Some (Inl e) \<Rightarrow> (Threw e, w)
      | Some (Inr x) \<Rightarrow> f x w)"
  by (simp add: bind_io_def await_def split: option.splits sum.splits)

lemma bind_emit [simp]: "bind_io (emit ev) f w = f () (w\<lparr>trace := trace w @ [ev]\<rparr>)"
  by (simp add: bind_io_def emit_def)

lemma bind_log [simp]: "bind_io (log s) f w = f () (w\<lparr>trace := trace w @ [Log s]\<rparr>)"
  by (simp add: log_def)

lemma bind_log_nested [simp]:
  "bind_io (log_nested s) f w = f () (w\<lparr>trace := trace w @ [LogNested s]\<rparr>)"
  by (simp add: log_nested_def)

lemma run_return [simp]: "return_io x w = (Returned x, w)"
  by (simp add: return_io_def)

lemma run_throw [simp]: "throw_io e w = (Threw e, w)"
  by (simp add: throw_io_def)

lemma run_exit [simp]: "exit_io n w = (Exited n, w)"
  by (simp add: exit_io_def)

lemma run_log [simp]: "log s w = (Returned (), w\<lparr>trace := trace w @ [Log s]\<rparr>)"
  by (simp add: log_def emit_def)

lemma run_log_nested [simp]:
  "log_nested s w = (Returned (), w\<lparr>trace := trace w @ [LogNested s]\<rparr>)"
  by (simp add: log_nested_def emit_def)

lemma run_call [simp]:
  "call r w = (case r of Inl e \<Rightarrow> (Threw e, w) | Inr x \<Rightarrow> (Returned x, w))"
  by (simp add: call_def split: sum.splits)

lemma bind_readFile [simp]:
  "bind_io (readFile p) f w =
     (case files w p of
        None \<Rightarrow> (Threw (Error (''ENOENT: no such file or directory, open '' @ p)), w)
      | Some text \<Rightarrow> f text w)"
  by (simp add: readFile_def split: option.splits)

lemma bind_writeFile [simp]:
  "bind_io (writeFile env p text) f w =
     (case writeFile_error env p w of
        Some e \<Rightarrow> (Threw e, w)
      | None \<Rightarrow> f () (w\<lparr>files := (files w)(p \<mapsto> text)\<rparr>))"
  by (simp add: writeFile_def bind_io_def split: option.splits)

lemma bind_try_catch_query:
  "bind_io (try_catch (bind_io (query q) (\<lambda>_. return_io u)) h) f w =
     (case q w of Inl e \<Rightarrow> bind_io (h e) f w | Inr x \<Rightarrow> f u w)"
  by (simp add: bind_io_def try_catch_def query_def return_io_def split: sum.splits)

lemma bind_try_catch:
  "bind_io (try_catch m h) f w =
     (case m w of
        (Returned x, w') \<Rightarrow> f x w'
      | (Threw e, w') \<Rightarrow> bind_io (h e) f w'
      | (Exited n, w') \<Rightarrow> (Exited n, w')
      | (Pending, w') \<Rightarrow> (Pending, w'))"
  by (simp add: bind_io_def try_catch_def split: prod.splits outcome.splits)

lemma bind_return_fun: "bind_io (return_io x) f = f x"
  by (rule ext) simp

lemma bind_throw_fun: "bind_io (throw_io e) f = throw_io e"
  by (rule ext) simp

lemma bind_assoc: "bind_io (bind_io m f) g = bind_io m (\<lambda>x. bind_io (f x) g)"
  by (rule ext) (simp add: bind_io_def split: prod.splits outcome.splits)

lemma bind_run:
  "m w = (Returned x, w') \<Longrightarrow> bind_io m f w = f x w'"
  "m w = (Threw e, w') \<Longrightarrow> bind_io m f w = (Threw e, w')"
  "m w = (Exited n, w') \<Longrightarrow> bind_io m f w = (Exited n, w')"
  "m w = (Pending, w') \<Longrightarrow> bind_io m f w = (Pending, w')"
  by (simp_all add: bind_io_def)



section \<open>Calls that leave the world as it is\<close>

lemma observes_return: "observes_only (return_io x)"
  by (simp add: observes_only_def)

lemma observes_throw: "observes_only (throw_io e)"
  by (simp add: observes_only_def)

lemma observes_query: "observes_only (query q)"
  by (simp add: observes_only_def query_def split: sum.splits)

lemma observes_call: "observes_only (call r)"
  by (simp add: observes_only_def split: sum.splits)

lemma observes_readFile: "observes_only (readFile p)"
  by (simp add: readFile_def observes_query)

lemma observes_bind:
  assumes "observes_only m" and "\<And>x. observes_only (f x)"
  shows "observes_only (bind_io m f)"
  unfolding observes_only_def
proof
  fix w
  from assms(1) obtain r where r: "m w = (r, w)" "\<forall>n. r \<noteq> Exited n" "r \<noteq> Pending"
    by (auto simp: observes_only_def)
  show "\<exists>r'. bind_io m f w = (r', w) \<and> (\<forall>n. r' \<noteq> Exited n) \<and> r' \<noteq> Pending"
  proof (cases r)
    case (Returned x)
    with r assms(2) [of x] show ?thesis by (auto simp: bind_io_def observes_only_def)
  next
    case (Threw e)
    with r show ?thesis by (simp add: bind_io_def)
  next
    case (Exited n)
    with r show ?thesis by simp
  next
    case Pending
    with r show ?thesis by simp
  qed
qed

lemma observes_try_catch:
  assumes "observes_only m" and "\<And>e. observes_only (h e)"
  shows "observes_only (try_catch m h)"
  unfolding observes_only_def
proof
  fix w
  from assms(1) obtain r where r: "m w = (r, w)" "\<forall>n. r \<noteq> Exited n" "r \<noteq> Pending"
    by (auto simp: observes_only_def)
  show "\<exists>r'. try_catch m h w = (r', w) \<and> (\<forall>n. r' \<noteq> Exited n) \<and> r' \<noteq> Pending"
  proof (cases r)
    case (Returned x)
    with r show ?thesis by (simp add: try_catch_def)
  next
    case (Threw e)
    with r assms(2) [of e] show ?thesis by (auto simp: try_catch_def observes_only_def)
  next
    case (Exited n)
    with r show ?thesis by simp
  next
    case Pending
    with r show ?thesis by simp
  qed
qed

lemma observes_if:
  "(c \<Longrightarrow> observes_only m) \<Longrightarrow> (\<not> c \<Longrightarrow> observes_only m') \<Longrightarrow>
   observes_only (if c then m else m')"
  by simp

lemma observes_case_prod:
  "(\<And>a b. observes_only (f a b)) \<Longrightarrow> observes_only (case p of (a, b) \<Rightarrow> f a b)"
  by (cases p) simp

lemmas observes_intros =
  observes_bind observes_try_catch observes_if observes_case_prod
  observes_return observes_throw observes_query observes_call observes_readFile

lemma observes_readAppJson: "observes_only (readAppJson env configPath configName)"
  unfolding readAppJson_def by (intro observes_intros)

lemma observes_validateProject: "observes_only (validateProject env projectRoot)"
  unfolding validateProject_def semver_major_def
  by (intro observes_intros observes_readAppJson)

section \<open>The unbound name on line 121\<close>

lemma semver_major_stops:
  "bind_io semver_major f = throw_io (ReferenceError ''semver is not defined'')"
  by (simp add: semver_major_def bind_throw_fun)

lemma never_throw: "never_returns (throw_io e)"
  by (simp add: never_returns_def)

lemma never_bind:
  assumes "\<And>x. never_returns (f x)"
  shows "never_returns (bind_io m f)"
  unfolding never_returns_def
proof (intro allI)
  fix w y
  obtain r w' where m: "m w = (r, w')" by (cases "m w")
  show "fst (bind_io m f w) \<noteq> Returned y"
  proof (cases r)
    case (Returned x)
    with m assms [of x] show ?thesis by (simp add: bind_io_def never_returns_def)
  next
    case (Threw e)
    with m show ?thesis by (simp add: bind_io_def)
  next
    case (Exited n)
    with m show ?thesis by (simp add: bind_io_def)
  next
    case Pending
    with m show ?thesis by (simp add: bind_io_def)
  qed
qed

lemma never_if:
  "(c \<Longrightarrow> never_returns m) \<Longrightarrow> (\<not> c \<Longrightarrow> never_returns m') \<Longrightarrow>
   never_returns (if c then m else m')"
  by simp

lemma never_case_prod:
  "(\<And>a b. never_returns (f a b)) \<Longrightarrow> never_returns (case p of (a, b) \<Rightarrow> f a b)"
  by (cases p) simp

text \<open>
  Every path through lines 104-129 that throws nothing earlier comes to line 121, so
  the validations never hand a project on to the rest of the function.
\<close>

lemma never_validateProject: "never_returns (validateProject env projectRoot)"
  unfolding validateProject_def semver_major_stops
  by (intro never_bind never_case_prod never_if never_throw)

lemma validateProject_throws: "\<exists>e. validateProject env projectRoot w = (Threw e, w)"
proof -
  from observes_validateProject [of env projectRoot]
  obtain r where r: "validateProject env projectRoot w = (r, w)"
    "\<forall>n. r \<noteq> Exited n" "r \<noteq> Pending"
    by (auto simp: observes_only_def)
  moreover have "\<forall>x. r \<noteq> Returned x"
    using never_validateProject [of env projectRoot] r(1)
    by (auto simp: never_returns_def dest: spec [of _ w])
  ultimately show ?thesis by (cases r) auto
qed



section \<open>prepareJob: the supported matrix and the rest\<close>

lemma stripDashes_loop_filter:
  "stripDashes_loop ret s = ret @ filter (\<lambda>c. c \<noteq> CHR ''-'' \<and> c \<noteq> CHR '' '') s"
  by (induction s arbitrary: ret) auto


lemma validateJob_run:
  "validateJob bt job w =
     ((case JobSchema_validate bt job of (v, None) \<Rightarrow> Returned v | (v, Some e) \<Rightarrow> Threw e),
      w\<lparr>trace := trace w @ [ConsoleLog job]\<rparr>)"
  by (simp add: validateJob_def split: prod.splits option.splits)

lemma prepareJob_read_fails:
  "BuildConfig_read bt projectDir w = Inl e \<Longrightarrow>
   prepareJob bt opts projectUrl projectDir w = (Threw e, w)"
  by (simp add: prepareJob_def)

lemma prepareJob_read_ok:
  "BuildConfig_read bt projectDir w = Inr t \<Longrightarrow>
   prepareJob bt opts projectUrl projectDir w =
     (case matching_prepare bt (platform opts) (config_type t) of
        Some prep \<Rightarrow> bind_io (query (prep t projectUrl projectDir)) (validateJob bt) w
      | None \<Rightarrow>
          (Threw (Error (if platform opts = Android \<or> platform opts = iOS
                         then ''Unsupported build type'' else ''Unsupported platform'')), w))"
  by (simp add: prepareJob_def matching_prepare_def split: platform.splits buildType.splits)

lemma bind_query_validate:
  "bind_io (query q) (validateJob bt) w =
    (case q w of
       Inl e \<Rightarrow> (Threw e, w)
     | Inr job \<Rightarrow>
         ((case JobSchema_validate bt job of (v, None) \<Rightarrow> Returned v | (v, Some e) \<Rightarrow> Threw e),
          w\<lparr>trace := trace w @ [ConsoleLog job]\<rparr>))"
  by (simp add: validateJob_run split: sum.splits)

lemma prepareJob_files: "files (snd (prepareJob bt opts projectUrl projectDir w)) = files w"
proof (cases "BuildConfig_read bt projectDir w")
  case (Inl e)
  then show ?thesis by (simp add: prepareJob_read_fails)
next
  case (Inr t)
  show ?thesis
    unfolding prepareJob_read_ok [OF Inr]
    by (simp add: validateJob_run split: option.splits sum.splits)
qed


lemma prepareJob_never_exits: "fst (prepareJob bt opts projectUrl projectDir w) \<noteq> Exited n"
proof (cases "BuildConfig_read bt projectDir w")
  case (Inl e)
  then show ?thesis by (simp add: prepareJob_read_fails)
next
  case (Inr t)
  show ?thesis
    unfolding prepareJob_read_ok [OF Inr]
    by (simp add: validateJob_run split: option.splits sum.splits prod.splits)
qed

text \<open>
  C1. With the platform Android or iOS and a build config of type Generic or Managed
  read from the project directory, \<open>prepareJob\<close> is the matching preparation function
  followed by \<open>validateJob\<close>; \<open>validateJob\<close> prints the job, returns the validated value
  when \<open>JobSchema.validate\<close> reports no error and throws the reported error otherwise;
  so a job that \<open>prepareJob\<close> returns is the validated value of a prepared job that
  passed the schema.
\<close>

theorem prepareJob_supported:
  assumes "platform opts = Android \<or> platform opts = iOS"
    and "BuildConfig_read bt projectDir w = Inr t"
    and "config_type t = Generic \<or> config_type t = Managed"
  shows "\<exists>prep. matching_prepare bt (platform opts) (config_type t) = Some prep
      \<and> prepareJob bt opts projectUrl projectDir w =
          bind_io (query (prep t projectUrl projectDir)) (validateJob bt) w
      \<and> (\<forall>job w0. validateJob bt job w0 =
            ((case JobSchema_validate bt job of
                (v, None) \<Rightarrow> Returned v | (v, Some e) \<Rightarrow> Threw e),
             w0\<lparr>trace := trace w0 @ [ConsoleLog job]\<rparr>))
      \<and> (\<forall>j w'. prepareJob bt opts projectUrl projectDir w = (Returned j, w') \<longrightarrow>
            (\<exists>job. prep t projectUrl projectDir w = Inr job
                  \<and> JobSchema_validate bt job = (j, None)))"
proof -
  from assms(1,3) obtain prep where
    p: "matching_prepare bt (platform opts) (config_type t) = Some prep"
    by (auto simp: matching_prepare_def)
  have run: "prepareJob bt opts projectUrl projectDir w =
          bind_io (query (prep t projectUrl projectDir)) (validateJob bt) w"
    using prepareJob_read_ok [OF assms(2)] p by simp
  have ret: "\<exists>job. prep t projectUrl projectDir w = Inr job
                  \<and> JobSchema_validate bt job = (j, None)"
    if "prepareJob bt opts projectUrl projectDir w = (Returned j, w')" for j w'
    using that unfolding run bind_query_validate
    by (auto split: sum.splits prod.splits option.splits)
  show ?thesis
    using p run ret validateJob_run by blast
qed

theorem prepareJob_supported_witness:
  "BuildConfig_read sample_buildTools ''/build'' generic_world
     = Inr \<lparr>config_type = Generic, config_body = JStr ''generic''\<rparr>
   \<and> prepareJob sample_buildTools \<lparr>platform = Android\<rparr> ''https://example.org/app.tar.gz''
       ''/build'' generic_world
     = (Returned sample_job, generic_world\<lparr>trace := [ConsoleLog sample_job]\<rparr>)
   \<and> JobSchema_validate sample_buildTools sample_job = (sample_job, None)"
proof -
  have h1: "platform \<lparr>platform = Android\<rparr> = Android \<or> platform \<lparr>platform = Android\<rparr> = iOS"
    by simp
  have h2: "BuildConfig_read sample_buildTools ''/build'' generic_world
     = Inr \<lparr>config_type = Generic, config_body = JStr ''generic''\<rparr>"
    by (simp add: sample_buildTools_def generic_world_def)
  have h3: "config_type \<lparr>config_type = Generic, config_body = JStr ''generic''\<rparr> = Generic
     \<or> config_type \<lparr>config_type = Generic, config_body = JStr ''generic''\<rparr> = Managed"
    by simp
  from prepareJob_supported [OF h1 h2 h3, of "''https://example.org/app.tar.gz''"]
  obtain prep where
    m: "matching_prepare sample_buildTools Android Generic = Some prep"
    and r: "prepareJob sample_buildTools \<lparr>platform = Android\<rparr> ''https://example.org/app.tar.gz''
       ''/build'' generic_world
      = bind_io (query (prep \<lparr>config_type = Generic, config_body = JStr ''generic''\<rparr>
          ''https://example.org/app.tar.gz'' ''/build'')) (validateJob sample_buildTools)
          generic_world"
    by auto
  from m have prep: "prep = prepareAndroidGenericJob sample_buildTools"
    by (simp add: matching_prepare_def)
  have v: "JobSchema_validate sample_buildTools sample_job = (sample_job, None)"
    by (simp add: sample_buildTools_def sample_job_def)
  have "prepareJob sample_buildTools \<lparr>platform = Android\<rparr> ''https://example.org/app.tar.gz''
       ''/build'' generic_world
     = (Returned sample_job, generic_world\<lparr>trace := [ConsoleLog sample_job]\<rparr>)"
    unfolding r prep bind_query_validate
    by (simp add: sample_buildTools_def generic_world_def sample_job_def)
  with h2 v show ?thesis by simp
qed

text \<open>
  C8, as stated, fails where the project directory holds no build config: the error of
  \<open>BuildConfig.read\<close> is thrown before the platform is looked at.
\<close>

theorem unsupported_platform_counterexample:
  "platform \<lparr>platform = OtherPlatform ''web''\<rparr> \<noteq> Android
   \<and> platform \<lparr>platform = OtherPlatform ''web''\<rparr> \<noteq> iOS
   \<and> prepareJob sample_buildTools \<lparr>platform = OtherPlatform ''web''\<rparr> ''u'' ''/build'' empty_world
       = (Threw (Error ''turtle.json not found''), empty_world)
   \<and> message (Error ''turtle.json not found'') \<noteq> ''Unsupported platform''"
  by (simp add: prepareJob_def sample_buildTools_def empty_world_def)

text \<open>
  C8, amended. When \<open>BuildConfig.read\<close> fails, \<open>prepareJob\<close> throws that error. When it
  returns a build config, \<open>prepareJob\<close> throws \<open>Unsupported platform\<close> for every platform
  other than Android and iOS, and \<open>Unsupported build type\<close> for Android or iOS with a
  type other than Generic and Managed; in each case nothing is printed.
\<close>

theorem prepareJob_unsupported:
  "(BuildConfig_read bt projectDir w = Inl e \<longrightarrow>
      prepareJob bt opts projectUrl projectDir w = (Threw e, w))
   \<and> (BuildConfig_read bt projectDir w = Inr t \<longrightarrow>
       (platform opts \<noteq> Android \<and> platform opts \<noteq> iOS \<longrightarrow>
          prepareJob bt opts projectUrl projectDir w = (Threw (Error ''Unsupported platform''), w))
     \<and> ((platform opts = Android \<or> platform opts = iOS)
          \<and> config_type t \<noteq> Generic \<and> config_type t \<noteq> Managed \<longrightarrow>
          prepareJob bt opts projectUrl projectDir w
            = (Threw (Error ''Unsupported build type''), w)))"
  by (auto simp: prepareJob_read_fails prepareJob_read_ok matching_prepare_def)

theorem prepareJob_unsupported_witness:
  "prepareJob sample_buildTools \<lparr>platform = OtherPlatform ''web''\<rparr> ''u'' ''/build'' empty_world
     = (Threw (Error ''turtle.json not found''), empty_world)
   \<and> prepareJob sample_buildTools \<lparr>platform = OtherPlatform ''web''\<rparr> ''u'' ''/build'' generic_world
     = (Threw (Error ''Unsupported platform''), generic_world)
   \<and> prepareJob sample_buildTools \<lparr>platform = iOS\<rparr> ''u'' ''/build'' custom_world
     = (Threw (Error ''Unsupported build type''), custom_world)"
proof -
  have r0: "BuildConfig_read sample_buildTools ''/build'' empty_world
      = Inl (Error ''turtle.json not found'')"
    by (simp add: sample_buildTools_def empty_world_def)
  have r1: "BuildConfig_read sample_buildTools ''/build'' generic_world
      = Inr \<lparr>config_type = Generic, config_body = JStr ''generic''\<rparr>"
    by (simp add: sample_buildTools_def generic_world_def)
  have r2: "BuildConfig_read sample_buildTools ''/build'' custom_world
      = Inr \<lparr>config_type = OtherBuildType ''custom'', config_body = JStr ''custom''\<rparr>"
    by (simp add: sample_buildTools_def custom_world_def)
  show ?thesis
    using prepareJob_unsupported [of sample_buildTools "''/build''" empty_world
        "Error ''turtle.json not found''" "\<lparr>platform = OtherPlatform ''web''\<rparr>" "''u''"]
      prepareJob_unsupported [of sample_buildTools "''/build''" generic_world _
        "\<lparr>platform = OtherPlatform ''web''\<rparr>" "''u''"
        "\<lparr>config_type = Generic, config_body = JStr ''generic''\<rparr>"]
      prepareJob_unsupported [of sample_buildTools "''/build''" custom_world _
        "\<lparr>platform = iOS\<rparr>" "''u''"
        "\<lparr>config_type = OtherBuildType ''custom'', config_body = JStr ''custom''\<rparr>"]
    by (simp add: r0 r1 r2)
qed

section \<open>stripDashes\<close>

text \<open>
  C10. \<open>stripDashes s\<close> is \<open>s\<close> with every hyphen and every space removed and the other
  characters in their order; applying it twice changes nothing more.
\<close>

theorem stripDashes_removes:
  "stripDashes s = filter (\<lambda>c. c \<noteq> CHR ''-'' \<and> c \<noteq> CHR '' '') s
   \<and> stripDashes (stripDashes s) = stripDashes s"
  by (simp add: stripDashes_def stripDashes_loop_filter)

section \<open>ejectToBareAsync: the validations, and the failure of the template step\<close>

text \<open>
  C2. Whenever the config or \<open>package.json\<close> cannot be read (a read throws, or the
  config or the package manifest comes back empty), or the SDK version is not at least
  33.0.0, or the manifest of the bare template for an SDK major version (the project's
  or any other) cannot be fetched, \<open>ejectToBareAsync\<close> throws and the world (every
  file, and the output) is as it was.
\<close>

theorem eject_validation_failure_leaves_project:
  assumes "(\<exists>e. findConfigFileAsync env projectRoot w = Inl e)
    \<or> (\<exists>e. ProjectUtils_readConfigJsonAsync env projectRoot w = Inl e)
    \<or> (\<exists>configPath configName e.
          findConfigFileAsync env projectRoot w = Inr (configPath, configName)
        \<and> readAppJson env configPath configName w = (Threw e, w))
    \<or> (\<exists>exp pkgJson.
          ProjectUtils_readConfigJsonAsync env projectRoot w = Inr (exp, pkgJson)
        \<and> (\<not> truthy_opt exp \<or> \<not> truthy_opt pkgJson
           \<or> gteSdkVersion env exp ''33.0.0'' = Inr False
           \<or> (\<exists>templateSpec major e.
                 npmPackageArg env (''expo-template-bare-minimum@sdk-'' @ string_of_nat major)
                   = Inr templateSpec
               \<and> pacote_manifest env templateSpec w = Inl e)))"
  shows "\<exists>e. ejectToBareAsync env projectRoot opts w = (Threw e, w)"
proof -
  from validateProject_throws [of env projectRoot w]
  obtain e where "validateProject env projectRoot w = (Threw e, w)" ..
  then have "ejectToBareAsync env projectRoot opts w = (Threw e, w)"
    by (simp add: ejectToBareAsync_def bind_io_def)
  then show ?thesis ..
qed

theorem eject_validation_failure_leaves_project_witness:
  "ProjectUtils_readConfigJsonAsync sdk32_env ''/proj'' sample_world
     = Inr (Some sample_exp, Some sample_pkgJson)
   \<and> gteSdkVersion sdk32_env (Some sample_exp) ''33.0.0'' = Inr False
   \<and> (\<exists>e. ejectToBareAsync sdk32_env ''/proj'' \<lparr>ejectMethod = Some (JStr ''bare'')\<rparr> sample_world
            = (Threw e, sample_world))"
proof -
  have h1: "ProjectUtils_readConfigJsonAsync sdk32_env ''/proj'' sample_world
     = Inr (Some sample_exp, Some sample_pkgJson)"
    by (simp add: sdk32_env_def sample_env_def)
  have h2: "gteSdkVersion sdk32_env (Some sample_exp) ''33.0.0'' = Inr False"
    by (simp add: sdk32_env_def)
  from h1 h2 have h: "(\<exists>e. findConfigFileAsync sdk32_env ''/proj'' sample_world = Inl e)
    \<or> (\<exists>e. ProjectUtils_readConfigJsonAsync sdk32_env ''/proj'' sample_world = Inl e)
    \<or> (\<exists>configPath configName e.
          findConfigFileAsync sdk32_env ''/proj'' sample_world = Inr (configPath, configName)
        \<and> readAppJson sdk32_env configPath configName sample_world = (Threw e, sample_world))
    \<or> (\<exists>exp pkgJson.
          ProjectUtils_readConfigJsonAsync sdk32_env ''/proj'' sample_world = Inr (exp, pkgJson)
        \<and> (\<not> truthy_opt exp \<or> \<not> truthy_opt pkgJson
           \<or> gteSdkVersion sdk32_env exp ''33.0.0'' = Inr False
           \<or> (\<exists>templateSpec major e.
                 npmPackageArg sdk32_env
                     (''expo-template-bare-minimum@sdk-'' @ string_of_nat major)
                   = Inr templateSpec
               \<and> pacote_manifest sdk32_env templateSpec sample_world = Inl e)))"
    by blast
  from eject_validation_failure_leaves_project [OF h] h1 h2 show ?thesis by blast
qed



section \<open>Calls that write no file\<close>

lemma keeps_return: "keeps_files (return_io x)"
  by (simp add: keeps_files_def)

lemma keeps_throw: "keeps_files (throw_io e)"
  by (simp add: keeps_files_def)

lemma keeps_query: "keeps_files (query q)"
  by (simp add: keeps_files_def query_def split: sum.splits)

lemma keeps_call: "keeps_files (call r)"
  by (simp add: keeps_files_def split: sum.splits)

lemma keeps_emit: "keeps_files (emit ev)"
  by (simp add: keeps_files_def emit_def)

lemma keeps_log: "keeps_files (log s)"
  by (simp add: keeps_files_def)

lemma keeps_log_nested: "keeps_files (log_nested s)"
  by (simp add: keeps_files_def)

lemma keeps_await: "keeps_files (await q)"
  by (simp add: keeps_files_def await_def split: option.splits sum.splits)

lemma keeps_readFile: "keeps_files (readFile p)"
  by (simp add: readFile_def keeps_query)

lemma keeps_bind:
  assumes "keeps_files m" and "\<And>x. keeps_files (f x)"
  shows "keeps_files (bind_io m f)"
  unfolding keeps_files_def
proof
  fix w
  obtain r w' where m: "m w = (r, w')" by (cases "m w")
  with assms(1) have w': "files w' = files w"
    by (metis keeps_files_def snd_conv)
  show "files (snd (bind_io m f w)) = files w"
  proof (cases r)
    case (Returned x)
    with m assms(2) [of x] w' show ?thesis by (simp add: bind_io_def keeps_files_def)
  next
    case (Threw e)
    with m w' show ?thesis by (simp add: bind_io_def)
  next
    case (Exited n)
    with m w' show ?thesis by (simp add: bind_io_def)
  next
    case Pending
    with m w' show ?thesis by (simp add: bind_io_def)
  qed
qed

lemma keeps_if:
  "(c \<Longrightarrow> keeps_files m) \<Longrightarrow> (\<not> c \<Longrightarrow> keeps_files m') \<Longrightarrow>
   keeps_files (if c then m else m')"
  by simp

lemma keeps_case_prod:
  "(\<And>a b. keeps_files (f a b)) \<Longrightarrow> keeps_files (case p of (a, b) \<Rightarrow> f a b)"
  by (cases p) simp

lemma keeps_case_option:
  "keeps_files m \<Longrightarrow> (\<And>v. keeps_files (f v)) \<Longrightarrow>
   keeps_files (case x of None \<Rightarrow> m | Some v \<Rightarrow> f v)"
  by (cases x) simp_all

lemmas keeps_intros =
  keeps_bind keeps_if keeps_case_prod keeps_case_option
  keeps_return keeps_throw keeps_query keeps_call keeps_emit keeps_log keeps_log_nested
  keeps_await keeps_readFile

lemma keeps_readAppJson: "keeps_files (readAppJson env configPath configName)"
  unfolding readAppJson_def by (intro keeps_intros)

lemma keeps_prompt: "keeps_files (prompt env qs help)"
  unfolding prompt_def by (intro keeps_intros)

lemma keeps_getAppNamesAsync: "keeps_files (getAppNamesAsync env projectRoot)"
  unfolding getAppNamesAsync_def by (intro keeps_intros keeps_readAppJson keeps_prompt)



text \<open>
  The naming stage of lines 134-148, entered on its own: when it returns, the file that
  \<open>path.resolve('app.json')\<close> names holds the customised configuration and no other
  file has changed.
\<close>

lemma customizeAppJson_writes:
  assumes "customizeAppJson env projectRoot appJson w = (Returned appJson', w')"
  shows "files w' = (files w)(path_resolve env ''app.json'' \<mapsto> JSON_stringify env appJson')"
proof -
  obtain r w1 where g: "getAppNamesAsync env projectRoot w = (r, w1)"
    by (cases "getAppNamesAsync env projectRoot w")
  with keeps_getAppNamesAsync [of env projectRoot] have f1: "files w1 = files w"
    by (metis keeps_files_def snd_conv)
  from assms g obtain displayName name where r: "r = Returned (displayName, name)"
    by (cases r) (auto simp: customizeAppJson_def bind_io_def [of "getAppNamesAsync env projectRoot"])
  from assms show ?thesis
    unfolding customizeAppJson_def
    by (auto simp: bind_io_def [of "getAppNamesAsync env projectRoot"] g r f1 bind_assoc
        split: sum.splits if_splits option.splits)
qed

lemma falsy_values:
  "(\<not> truthy_opt v) =
   (v = None \<or> v = Some JNull \<or> v = Some (JBool False) \<or> v = Some (JNum 0) \<or> v = Some (JStr []))"
proof (cases v)
  case None
  then show ?thesis by simp
next
  case (Some x)
  then show ?thesis by (cases x) auto
qed

section \<open>Calls that always end\<close>


















section \<open>Calls that depend on the files only\<close>



















section \<open>getAppNamesAsync\<close>

lemma prompt_then_calls:
  "snd (bind_io (prompt env qs hint)
          (\<lambda>answers. bind_io (call (A answers))
             (\<lambda>d. bind_io (call (B answers)) (\<lambda>n. return_io (d, n)))) w)
     = w\<lparr>trace := trace w @ [Prompted (map q_name qs)]\<rparr>"
  by (simp add: prompt_def bind_assoc split: option.split sum.split)

text \<open>
  C4, as stated, fails on an \<open>app.json\<close> whose \<open>displayName\<close> is present and is not an
  empty string, yet is falsy: with \<open>"displayName": false\<close> and \<open>"name": "demo"\<close> the
  questions are asked and the answers are returned in place of the two values.
\<close>

theorem prompt_despite_names_counterexample:
  "files unnamed_world ''/proj/app.json'' = Some ''unnamed''
   \<and> JSON_parse sample_env ''unnamed'' = Inr unnamed_appJson
   \<and> get_prop (Some unnamed_appJson) ''displayName'' = Inr (Some (JBool False))
   \<and> get_prop (Some unnamed_appJson) ''name'' = Inr (Some (JStr ''demo''))
   \<and> getAppNamesAsync sample_env ''/proj'' unnamed_world =
       (Returned (Some (JStr ''Asked''), Some (JStr ''asked'')),
        unnamed_world\<lparr>trace :=
          [Log ''We have a couple of questions to ask you about how you'd like to name your app:'',
           Prompted [''displayName'', ''name'']]\<rparr>)"
  by (simp add: getAppNamesAsync_def readAppJson_def prompt_def nameQuestions_def
      sample_env_def unnamed_world_def unnamed_appJson_def sample_exp_def sample_pkgJson_def
      stripDashes_def bind_assoc)

text \<open>
  C4, amended. Let the config file be \<open>app.json\<close>, let it and the project config be
  read, and let \<open>package.json\<close> have a string for its name or none. If \<open>displayName\<close> and
  \<open>name\<close> of \<open>app.json\<close> are both truthy, \<open>getAppNamesAsync\<close> returns the two values
  unchanged and prints and asks nothing. If at least one is falsy (absent, \<open>null\<close>,
  \<open>false\<close>, \<open>0\<close> or the empty string) it prints its notice and issues the prompt.
\<close>

theorem getAppNamesAsync_prompts_iff_falsy:
  assumes "findConfigFileAsync env projectRoot w = Inr (configPath, ''app.json'')"
    and "ConfigUtils_readConfigJsonAsync env projectRoot w = Inr (exp, pkgJson)"
    and "files w configPath = Some text"
    and "JSON_parse env text = Inr appJson"
    and "get_prop (Some appJson) ''displayName'' = Inr displayName"
    and "get_prop (Some appJson) ''name'' = Inr name"
    and "get_prop exp ''name'' = Inr expName"
    and "get_prop pkgJson ''name'' = Inr pkgName"
    and "pkgName = None \<or> (\<exists>s. pkgName = Some (JStr s))"
  shows "(truthy_opt displayName \<and> truthy_opt name \<longrightarrow>
            getAppNamesAsync env projectRoot w = (Returned (displayName, name), w))
       \<and> (\<not> truthy_opt displayName \<or> \<not> truthy_opt name \<longrightarrow>
            snd (getAppNamesAsync env projectRoot w) =
              w\<lparr>trace := trace w @
                [Log ''We have a couple of questions to ask you about how you'd like to name your app:'',
                 Prompted [''displayName'', ''name'']]\<rparr>)
       \<and> (\<forall>v. (\<not> truthy_opt v) =
              (v = None \<or> v = Some JNull \<or> v = Some (JBool False) \<or> v = Some (JNum 0)
               \<or> v = Some (JStr [])))"
proof -
  have start: "getAppNamesAsync env projectRoot w =
     (if \<not> truthy_opt displayName \<or> \<not> truthy_opt name then
         bind_io (log ''We have a couple of questions to ask you about how you'd like to name your app:'') (\<lambda>_.
         bind_io (if truthy_opt name then return_io name else call (get_prop exp ''name'')) (\<lambda>displayNameDefault.
         bind_io (call (get_prop pkgJson ''name'')) (\<lambda>pkgName.
         bind_io (case pkgName of
                    None \<Rightarrow> return_io None
                  | Some v \<Rightarrow> if truthy v
                      then bind_io (call (stripDashes_value v)) (\<lambda>s. return_io (Some (JStr s)))
                      else return_io None) (\<lambda>nameDefault.
         bind_io (prompt env (nameQuestions displayNameDefault nameDefault)
                    ''Please specify \"displayName\" and \"name\" in app.json.'') (\<lambda>answers.
         bind_io (call (get_prop (Some answers) ''displayName'')) (\<lambda>displayName'.
         bind_io (call (get_prop (Some answers) ''name'')) (\<lambda>name'.
           return_io (displayName', name'))))))))
       else return_io (displayName, name)) w"
    by (simp add: getAppNamesAsync_def readAppJson_def assms(1-6) bind_assoc)
  have quiet: "getAppNamesAsync env projectRoot w = (Returned (displayName, name), w)"
    if "truthy_opt displayName \<and> truthy_opt name"
    using that by (simp add: start)
  have asked: "map q_name (nameQuestions d n) = [''displayName'', ''name'']" for d n
    by (simp add: nameQuestions_def)
  have asks: "snd (getAppNamesAsync env projectRoot w) =
              w\<lparr>trace := trace w @
                [Log ''We have a couple of questions to ask you about how you'd like to name your app:'',
                 Prompted [''displayName'', ''name'']]\<rparr>"
    if falsy: "\<not> truthy_opt displayName \<or> \<not> truthy_opt name"
    using assms(9)
  proof
    assume "pkgName = None"
    with falsy show ?thesis
      by (simp add: start assms(7,8) prompt_then_calls asked)
  next
    assume "\<exists>s. pkgName = Some (JStr s)"
    then obtain s where "pkgName = Some (JStr s)" ..
    with falsy show ?thesis
      by (simp add: start assms(7,8) prompt_then_calls asked bind_assoc)
  qed
  show ?thesis using quiet asks falsy_values by blast
qed

theorem getAppNamesAsync_prompts_iff_falsy_witness:
  "getAppNamesAsync sample_env ''/proj'' sample_world
     = (Returned (Some (JStr ''Demo''), Some (JStr ''demo'')), sample_world)
   \<and> snd (getAppNamesAsync sample_env ''/proj'' unnamed_world)
     = unnamed_world\<lparr>trace :=
         [Log ''We have a couple of questions to ask you about how you'd like to name your app:'',
          Prompted [''displayName'', ''name'']]\<rparr>"
proof -
  have a1: "findConfigFileAsync sample_env ''/proj'' w = Inr (''/proj/app.json'', ''app.json'')"
    for w by (simp add: sample_env_def)
  have a2: "ConfigUtils_readConfigJsonAsync sample_env ''/proj'' w
      = Inr (Some sample_exp, Some sample_pkgJson)" for w
    by (simp add: sample_env_def)
  have a3: "files sample_world ''/proj/app.json'' = Some ''sample''"
    by (simp add: sample_world_def)
  have a3': "files unnamed_world ''/proj/app.json'' = Some ''unnamed''"
    by (simp add: unnamed_world_def)
  have a4: "JSON_parse sample_env ''sample'' = Inr sample_appJson"
    by (simp add: sample_env_def)
  have a4': "JSON_parse sample_env ''unnamed'' = Inr unnamed_appJson"
    by (simp add: sample_env_def)
  have a5: "get_prop (Some sample_appJson) ''displayName'' = Inr (Some (JStr ''Demo''))"
    by (simp add: sample_appJson_def)
  have a5': "get_prop (Some unnamed_appJson) ''displayName'' = Inr (Some (JBool False))"
    by (simp add: unnamed_appJson_def)
  have a6: "get_prop (Some sample_appJson) ''name'' = Inr (Some (JStr ''demo''))"
    by (simp add: sample_appJson_def)
  have a6': "get_prop (Some unnamed_appJson) ''name'' = Inr (Some (JStr ''demo''))"
    by (simp add: unnamed_appJson_def)
  have a7: "get_prop (Some sample_exp) ''name'' = Inr (Some (JStr ''demo''))"
    by (simp add: sample_exp_def)
  have a8: "get_prop (Some sample_pkgJson) ''name'' = Inr (Some (JStr ''demo-app''))"
    by (simp add: sample_pkgJson_def)
  have a9: "Some (JStr ''demo-app'') = None \<or> (\<exists>s. Some (JStr ''demo-app'') = Some (JStr s))"
    by simp
  from getAppNamesAsync_prompts_iff_falsy [OF a1 a2 a3 a4 a5 a6 a7 a8 a9]
    getAppNamesAsync_prompts_iff_falsy [OF a1 a2 a3' a4' a5' a6' a7 a8 a9]
  show ?thesis by (simp add: unnamed_world_def)
qed

section \<open>ejectAsync\<close>

text \<open>
  C9. Once the eject method is resolved, \<open>ejectAsync\<close> does one of four things and
  nothing else: for \<open>bare\<close> the bare eject, then the success message; for \<open>expokit\<close> the
  login and the ExpoKit detach, then the success message; for \<open>cancel\<close> one line of
  acknowledgement and a return, with no eject and no success message; for any other
  value an error that names the value and lists \<open>bare, expokit\<close>.
\<close>

theorem ejectAsync_dispatch:
  assumes "bind_io (reportWorkingTree env) (\<lambda>_. resolveEjectMethod env opts) w
             = (Returned method, w1)"
  shows "ejectAsync env projectRoot opts w =
    (if method = Some (JStr ''bare'') then
       bind_io (ejectToBareAsync env projectRoot opts) (\<lambda>_. log ''Ejected successfully!'') w1
     else if method = Some (JStr ''expokit'') then
       bind_io (loginOrRegisterIfLoggedOut env) (\<lambda>_.
       bind_io (detachAsync env projectRoot opts) (\<lambda>_. log ''Ejected successfully!'')) w1
     else if method = Some (JStr ''cancel'') then
       (Returned (),
        w1\<lparr>trace := trace w1 @
              [Log ''OK! If you change your mind you can run this command again.'']\<rparr>)
     else
       (Threw (Error (''Unrecognized eject method \"'' @ js_string_opt method
                       @ ''\". Valid options are: bare, expokit.'')), w1))"
proof -
  have "ejectAsync env projectRoot opts =
      bind_io (bind_io (reportWorkingTree env) (\<lambda>_. resolveEjectMethod env opts))
        (dispatchEjectMethod env projectRoot opts)"
    by (simp add: ejectAsync_def bind_assoc)
  then have "ejectAsync env projectRoot opts w = dispatchEjectMethod env projectRoot opts method w1"
    using assms by (simp add: bind_io_def)
  then show ?thesis
    by (simp add: dispatchEjectMethod_def bind_assoc bind_return_fun del: run_log)
qed

theorem ejectAsync_dispatch_witness:
  "ejectAsync sample_env ''/proj'' \<lparr>ejectMethod = Some (JStr ''eas'')\<rparr> sample_world =
     (Threw (Error ''Unrecognized eject method \"eas\". Valid options are: bare, expokit.''),
      sample_world\<lparr>trace :=
        [LogNested ''Your git working tree is clean'',
         LogNested ''To revert the changes from ejecting later, you can use these commands:'',
         LogNested ''  git clean --force && git reset --hard'',
         LogNested []]\<rparr>)
   \<and> ejectAsync sample_env ''/proj'' \<lparr>ejectMethod = None\<rparr> sample_world =
     (Returned (),
      sample_world\<lparr>trace :=
        [LogNested ''Your git working tree is clean'',
         LogNested ''To revert the changes from ejecting later, you can use these commands:'',
         LogNested ''  git clean --force && git reset --hard'',
         LogNested [],
         Prompted [''ejectMethod''],
         Log ''OK! If you change your mind you can run this command again.'']\<rparr>)"
proof -
  have h1: "bind_io (reportWorkingTree sample_env)
       (\<lambda>_. resolveEjectMethod sample_env \<lparr>ejectMethod = Some (JStr ''eas'')\<rparr>) sample_world =
     (Returned (Some (JStr ''eas'')),
      sample_world\<lparr>trace :=
        [LogNested ''Your git working tree is clean'',
         LogNested ''To revert the changes from ejecting later, you can use these commands:'',
         LogNested ''  git clean --force && git reset --hard'',
         LogNested []]\<rparr>)"
    by (simp add: reportWorkingTree_def workingTreeStatus_def resolveEjectMethod_def
        sample_env_def sample_world_def bind_assoc)
  have h2: "bind_io (reportWorkingTree sample_env)
       (\<lambda>_. resolveEjectMethod sample_env \<lparr>ejectMethod = None\<rparr>) sample_world =
     (Returned (Some (JStr ''cancel'')),
      sample_world\<lparr>trace :=
        [LogNested ''Your git working tree is clean'',
         LogNested ''To revert the changes from ejecting later, you can use these commands:'',
         LogNested ''  git clean --force && git reset --hard'',
         LogNested [],
         Prompted [''ejectMethod'']]\<rparr>)"
    by (simp add: reportWorkingTree_def workingTreeStatus_def resolveEjectMethod_def
        prompt_def ejectQuestions_def sample_env_def sample_world_def bind_assoc)
  from ejectAsync_dispatch [OF h1, of "''/proj''"] ejectAsync_dispatch [OF h2, of "''/proj''"]
  show ?thesis by simp
qed

section \<open>What persists\<close>








section \<open>What one invocation hands to the next\<close>




section \<open>Termination\<close>




end
